theory Spec2Isabelle
  imports Main "HOL-Library.Word"
begin

section \<open>Data\<close>

text \<open>
  The library of \<^verbatim>\<open>src/index.ts\<close> works on JavaScript strings and on \<^verbatim>\<open>Uint8Array\<close>s.
  A JavaScript string is the sequence of its UTF-16 code units: \<^verbatim>\<open>length\<close>, \<^verbatim>\<open>split\<close> and
  the comparison \<^verbatim>\<open><\<close> all work on code units. A value that may be \<^verbatim>\<open>undefined\<close> at run
  time (an element of a destructured array, an optional parameter) is an \<open>option\<close>.
\<close>

type_synonym byte = "8 word"
type_synonym Uint8Array = "byte list"
type_synonym jschar = "16 word"
type_synonym jsstring = "jschar list"
type_synonym HexString = jsstring
type_synonym Utf8String = jsstring
type_synonym Base64String = jsstring
type_synonym EncryptedMessage = jsstring
type_synonym EncryptedBlobMessage = Uint8Array

text \<open>A string literal of the source, as code units.\<close>

definition str :: "string \<Rightarrow> jsstring" where
  "str s = map (\<lambda>c. of_nat (of_char c)) s"

text \<open>
  What a call throws. \<open>InvalidVersion\<close>, \<open>NonceMustBe48Bytes\<close> and
  \<open>NonceBufferMustBe24Bytes\<close> are the three \<^verbatim>\<open>Error\<close>s that \<^verbatim>\<open>index.ts\<close> itself
  throws; \<open>DecodingError\<close> is thrown by a conversion of \<^verbatim>\<open>./utils\<close>; \<open>PrimitiveError\<close>
  is anything thrown inside a cryptographic primitive.
\<close>

datatype error =
    InvalidVersion "jsstring option"
  | NonceMustBe48Bytes
  | NonceBufferMustBe24Bytes
  | DecodingError
  | PrimitiveError

section \<open>Built-in string and array operations\<close>

text \<open>\<^verbatim>\<open>s.split(sep)\<close> for a one-character separator: never empty, \<^verbatim>\<open>"".split(":")\<close> is \<^verbatim>\<open>[""]\<close>.\<close>

fun split :: "jschar \<Rightarrow> jsstring \<Rightarrow> jsstring list" where
  "split sep [] = [[]]"
| "split sep (c # cs) =
     (if c = sep then [] # split sep cs
      else (case split sep cs of [] \<Rightarrow> [[c]] | f # fs \<Rightarrow> (c # f) # fs))"

text \<open>\<^verbatim>\<open>s.split(sep, limit)\<close>: the first \<open>limit\<close> fields, the others dropped.\<close>

definition split_limit :: "jschar \<Rightarrow> nat \<Rightarrow> jsstring \<Rightarrow> jsstring list" where
  "split_limit sep limit s = take limit (split sep s)"

text \<open>\<^verbatim>\<open>xs.join(sep)\<close>.\<close>

fun join :: "jschar \<Rightarrow> jsstring list \<Rightarrow> jsstring" where
  "join sep [] = []"
| "join sep [x] = x"
| "join sep (x # y # zs) = x @ sep # join sep (y # zs)"

text \<open>\<^verbatim>\<open>xs[i]\<close>, as array destructuring reads it: \<^verbatim>\<open>undefined\<close> past the end.\<close>

definition element :: "'a list \<Rightarrow> nat \<Rightarrow> 'a option" where
  "element xs i = (if i < length xs then Some (xs ! i) else None)"

text \<open>\<^verbatim>\<open>a < b\<close> on two strings: lexicographic on code units, a proper prefix is smaller.\<close>

fun str_less :: "jsstring \<Rightarrow> jsstring \<Rightarrow> bool" where
  "str_less [] [] = False"
| "str_less [] (y # ys) = True"
| "str_less (x # xs) [] = False"
| "str_less (x # xs) (y # ys) = (x < y \<or> (x = y \<and> str_less xs ys))"

text \<open>\<^verbatim>\<open>a < b\<close> where \<open>a\<close> may be \<^verbatim>\<open>undefined\<close>, which compares false with every string.\<close>

definition js_less :: "jsstring option \<Rightarrow> jsstring \<Rightarrow> bool" where
  "js_less a b = (case a of None \<Rightarrow> False | Some s \<Rightarrow> str_less s b)"

text \<open>\<^verbatim>\<open>xs.slice(start, end)\<close> and \<^verbatim>\<open>xs.slice(start)\<close> for indices that are not negative.\<close>

definition slice :: "nat \<Rightarrow> nat \<Rightarrow> 'a list \<Rightarrow> 'a list" where
  "slice start end' xs = drop start (take end' xs)"

definition slice_from :: "nat \<Rightarrow> 'a list \<Rightarrow> 'a list" where
  "slice_from start xs = drop start xs"

section \<open>Encoding utilities\<close>

subsection \<open>Hexadecimal\<close>

definition hexdigit :: "nat \<Rightarrow> jschar" where
  "hexdigit n = of_nat (if n < 10 then 48 + n else 87 + n)"

definition hexval :: "jschar \<Rightarrow> nat option" where
  "hexval c =
     (let n = unat c in
      if 48 \<le> n \<and> n \<le> 57 then Some (n - 48)
      else if 97 \<le> n \<and> n \<le> 102 then Some (n - 87)
      else if 65 \<le> n \<and> n \<le> 70 then Some (n - 55)
      else None)"

definition is_hex_char :: "jschar \<Rightarrow> bool" where
  "is_hex_char c = (hexval c \<noteq> None)"

fun to_hex :: "Uint8Array \<Rightarrow> jsstring" where
  "to_hex [] = []"
| "to_hex (b # bs) = hexdigit (unat b div 16) # hexdigit (unat b mod 16) # to_hex bs"

fun from_hex :: "jsstring \<Rightarrow> Uint8Array option" where
  "from_hex [] = Some []"
| "from_hex [c] = None"
| "from_hex (c # d # cs) =
     (case (hexval c, hexval d, from_hex cs) of
        (Some h, Some l, Some bs) \<Rightarrow> Some (of_nat (16 * h + l) # bs)
      | _ \<Rightarrow> None)"

subsection \<open>Base64\<close>

definition b64char :: "nat \<Rightarrow> jschar" where
  "b64char n = of_nat (if n < 26 then 65 + n else if n < 52 then 71 + n
     else if n < 62 then n - 4 else if n = 62 then 43 else 47)"

definition b64val :: "jschar \<Rightarrow> nat option" where
  "b64val c =
     (let n = unat c in
      if 65 \<le> n \<and> n \<le> 90 then Some (n - 65)
      else if 97 \<le> n \<and> n \<le> 122 then Some (n - 71)
      else if 48 \<le> n \<and> n \<le> 57 then Some (n + 4)
      else if n = 43 then Some 62
      else if n = 47 then Some 63
      else None)"

definition b64pad :: jschar where
  "b64pad = 61"

definition is_base64_char :: "jschar \<Rightarrow> bool" where
  "is_base64_char c = (b64val c \<noteq> None \<or> c = b64pad)"

text \<open>Three bytes are one 24-bit number, written as four 6-bit digits.\<close>

definition triple :: "byte \<Rightarrow> byte \<Rightarrow> byte \<Rightarrow> nat" where
  "triple a b c = (unat a * 256 + unat b) * 256 + unat c"

definition sextets :: "nat \<Rightarrow> nat list" where
  "sextets n = [n div 262144, n div 4096 mod 64, n div 64 mod 64, n mod 64]"

definition of_sextets :: "nat \<Rightarrow> nat \<Rightarrow> nat \<Rightarrow> nat \<Rightarrow> nat" where
  "of_sextets v0 v1 v2 v3 = ((v0 * 64 + v1) * 64 + v2) * 64 + v3"

definition octets :: "nat \<Rightarrow> byte list" where
  "octets n = [of_nat (n div 65536), of_nat (n div 256 mod 256), of_nat (n mod 256)]"

fun to_base64 :: "Uint8Array \<Rightarrow> jsstring" where
  "to_base64 [] = []"
| "to_base64 [a] = take 2 (map b64char (sextets (triple a 0 0))) @ [b64pad, b64pad]"
| "to_base64 [a, b] = take 3 (map b64char (sextets (triple a b 0))) @ [b64pad]"
| "to_base64 (a # b # c # bs) = map b64char (sextets (triple a b c)) @ to_base64 bs"

fun from_base64 :: "jsstring \<Rightarrow> Uint8Array option" where
  "from_base64 [] = Some []"
| "from_base64 (c0 # c1 # c2 # c3 # cs) =
     (if cs = [] \<and> c3 = b64pad then
        (if c2 = b64pad then
           (case (b64val c0, b64val c1) of
              (Some v0, Some v1) \<Rightarrow> Some (take 1 (octets (of_sextets v0 v1 0 0)))
            | _ \<Rightarrow> None)
         else
           (case (b64val c0, b64val c1, b64val c2) of
              (Some v0, Some v1, Some v2) \<Rightarrow> Some (take 2 (octets (of_sextets v0 v1 v2 0)))
            | _ \<Rightarrow> None))
      else
        (case (b64val c0, b64val c1, b64val c2, b64val c3, from_base64 cs) of
           (Some v0, Some v1, Some v2, Some v3, Some bs) \<Rightarrow>
             Some (octets (of_sextets v0 v1 v2 v3) @ bs)
         | _ \<Rightarrow> None))"
| "from_base64 _ = None"

subsection \<open>UTF-8\<close>

definition is_high :: "nat \<Rightarrow> bool" where
  "is_high n = (55296 \<le> n \<and> n < 56320)"

definition is_low :: "nat \<Rightarrow> bool" where
  "is_low n = (56320 \<le> n \<and> n < 57344)"

definition is_scalar :: "nat \<Rightarrow> bool" where
  "is_scalar cp = (cp < 1114112 \<and> \<not> is_high cp \<and> \<not> is_low cp)"

text \<open>
  The code points of a string: a surrogate pair is one code point, a surrogate without
  its partner is read as U+FFFD.
\<close>

fun code_points :: "jsstring \<Rightarrow> nat list" where
  "code_points [] = []"
| "code_points (u # us) =
     (if is_high (unat u) then
        (case us of
           [] \<Rightarrow> [65533]
         | v # vs \<Rightarrow>
             if is_low (unat v)
             then (65536 + (unat u - 55296) * 1024 + (unat v - 56320)) # code_points vs
             else 65533 # code_points us)
      else if is_low (unat u) then 65533 # code_points us
      else unat u # code_points us)"

definition code_units :: "nat \<Rightarrow> jsstring" where
  "code_units cp =
     (if cp < 65536 then [of_nat cp]
      else [of_nat (55296 + (cp - 65536) div 1024), of_nat (56320 + (cp - 65536) mod 1024)])"

definition utf8_encode :: "nat \<Rightarrow> Uint8Array" where
  "utf8_encode cp =
     (if cp < 128 then [of_nat cp]
      else if cp < 2048 then [of_nat (192 + cp div 64), of_nat (128 + cp mod 64)]
      else if cp < 65536 then
        [of_nat (224 + cp div 4096), of_nat (128 + cp div 64 mod 64), of_nat (128 + cp mod 64)]
      else
        [of_nat (240 + cp div 262144), of_nat (128 + cp div 4096 mod 64),
         of_nat (128 + cp div 64 mod 64), of_nat (128 + cp mod 64)])"

definition continuation :: "byte \<Rightarrow> bool" where
  "continuation b = (128 \<le> unat b \<and> unat b < 192)"

text \<open>
  Strict decoding: a truncated sequence, a stray continuation byte, an overlong form, an
  encoded surrogate and a code point above U+10FFFF are all malformed.
\<close>

fun utf8_decode :: "Uint8Array \<Rightarrow> nat list option" where
  "utf8_decode [] = Some []"
| "utf8_decode (b # bs) =
     (if unat b < 128 then map_option (Cons (unat b)) (utf8_decode bs)
      else if 194 \<le> unat b \<and> unat b < 224 then
        (case bs of
           b1 # r \<Rightarrow>
             if continuation b1
             then map_option (Cons ((unat b - 192) * 64 + (unat b1 - 128))) (utf8_decode r)
             else None
         | _ \<Rightarrow> None)
      else if 224 \<le> unat b \<and> unat b < 240 then
        (case bs of
           b1 # b2 # r \<Rightarrow>
             (let cp = ((unat b - 224) * 64 + (unat b1 - 128)) * 64 + (unat b2 - 128) in
              if continuation b1 \<and> continuation b2 \<and> 2048 \<le> cp \<and> is_scalar cp
              then map_option (Cons cp) (utf8_decode r)
              else None)
         | _ \<Rightarrow> None)
      else if 240 \<le> unat b \<and> unat b < 245 then
        (case bs of
           b1 # b2 # b3 # r \<Rightarrow>
             (let cp = (((unat b - 240) * 64 + (unat b1 - 128)) * 64 + (unat b2 - 128)) * 64
                        + (unat b3 - 128) in
              if continuation b1 \<and> continuation b2 \<and> continuation b3 \<and>
                 65536 \<le> cp \<and> is_scalar cp
              then map_option (Cons cp) (utf8_decode r)
              else None)
         | _ \<Rightarrow> None)
      else None)"

definition from_string :: "jsstring \<Rightarrow> Uint8Array" where
  "from_string s = concat (map utf8_encode (code_points s))"

definition to_string :: "Uint8Array \<Rightarrow> jsstring option" where
  "to_string bs = map_option (\<lambda>cps. concat (map code_units cps)) (utf8_decode bs)"


subsection \<open>The functions of \<^verbatim>\<open>./utils\<close>\<close>

text \<open>
  Modelled from the spec: \<^verbatim>\<open>./utils\<close> is imported by \<^verbatim>\<open>index.ts\<close> and is not among the
  sources. The spec (4.1) gives its contract: lossless conversions between byte
  sequences and their hex, base64 and UTF-8 text, total on well-formed input, failing
  with a decoding error on malformed input (odd-length hex, a character outside the
  alphabet), and ordered concatenation. The hex digits are lower case, base64 is the
  standard alphabet with padding. A decoder handed \<^verbatim>\<open>undefined\<close> (\<open>None\<close>) instead of a
  string fails with the same decoding error.
\<close>

definition arrayBufferToHexString :: "Uint8Array \<Rightarrow> HexString" where
  "arrayBufferToHexString bs = to_hex bs"

definition hexStringToArrayBuffer :: "HexString option \<Rightarrow> error + Uint8Array" where
  "hexStringToArrayBuffer hex =
     (case hex of
        None \<Rightarrow> Inl DecodingError
      | Some s \<Rightarrow> (case from_hex s of None \<Rightarrow> Inl DecodingError | Some bs \<Rightarrow> Inr bs))"

definition arrayBufferToBase64 :: "Uint8Array \<Rightarrow> Base64String" where
  "arrayBufferToBase64 bs = to_base64 bs"

definition base64ToArrayBuffer :: "Base64String option \<Rightarrow> error + Uint8Array" where
  "base64ToArrayBuffer base64 =
     (case base64 of
        None \<Rightarrow> Inl DecodingError
      | Some s \<Rightarrow> (case from_base64 s of None \<Rightarrow> Inl DecodingError | Some bs \<Rightarrow> Inr bs))"

definition stringToArrayBuffer :: "Utf8String \<Rightarrow> Uint8Array" where
  "stringToArrayBuffer s = from_string s"

definition arrayBufferToString :: "Uint8Array \<Rightarrow> error + Utf8String" where
  "arrayBufferToString bs =
     (case to_string bs of None \<Rightarrow> Inl DecodingError | Some s \<Rightarrow> Inr s)"

definition concatUint8Arrays :: "Uint8Array list \<Rightarrow> Uint8Array" where
  "concatUint8Arrays arrays = concat arrays"

text \<open>
  Modelled from the spec: \<^verbatim>\<open>generateRandomKey\<close> of \<^verbatim>\<open>./utils\<close> (spec 4.2) draws
  \<open>length\<close> bytes from the platform's secure random source and returns them
  hex-encoded. The source is the parameter \<open>random\<close>: the bytes it delivers to this
  call, by position.
\<close>

definition generateRandomKey :: "(nat \<Rightarrow> byte) \<Rightarrow> nat \<Rightarrow> HexString" where
  "generateRandomKey random length' = arrayBufferToHexString (map random [0..<length'])"

section \<open>The cryptographic primitives\<close>

text \<open>
  The primitives that \<^verbatim>\<open>index.ts\<close> calls are parameters of the model. A primitive that
  throws returns \<open>None\<close>. AEAD decryption returns \<open>Some (Some m)\<close> for the message \<open>m\<close>;
  \<open>Some None\<close> stands for JavaScript's \<^verbatim>\<open>null\<close>, which the return types declared in
  \<^verbatim>\<open>index.ts\<close> admit. The arguments that the source fixes to \<^verbatim>\<open>null\<close> (additional data,
  secret nonce) and the algorithm constant are left out.
\<close>

record sodium =
  crypto_aead_xchacha20poly1305_ietf_encrypt ::
    "Uint8Array \<Rightarrow> Uint8Array \<Rightarrow> Uint8Array \<Rightarrow> Uint8Array option"
  crypto_aead_xchacha20poly1305_ietf_decrypt ::
    "Uint8Array \<Rightarrow> Uint8Array \<Rightarrow> Uint8Array \<Rightarrow> Uint8Array option option"
  crypto_pwhash ::
    "int \<Rightarrow> Uint8Array \<Rightarrow> Uint8Array \<Rightarrow> int \<Rightarrow> int \<Rightarrow> Uint8Array option"

text \<open>
  The output format \<^verbatim>\<open>'text'\<close> of the library: the message is decoded as UTF-8, malformed
  bytes throw, and a byte order mark U+FEFF at the start is dropped, as the platform's
  text decoder does. The format \<^verbatim>\<open>'uint8array'\<close> returns the bytes as they are.
\<close>

definition strip_bom :: "jsstring \<Rightarrow> jsstring" where
  "strip_bom s = (case s of [] \<Rightarrow> [] | c # cs \<Rightarrow> if c = 65279 then cs else s)"

definition text_output :: "Uint8Array \<Rightarrow> jsstring option" where
  "text_output message = map_option strip_bom (to_string message)"

text \<open>
  The call \<^verbatim>\<open>sodium.crypto_aead_xchacha20poly1305_ietf_decrypt(null, c, null, n, k, 'text')\<close>:
  the primitive, and its message in the output format \<^verbatim>\<open>'text'\<close>.
\<close>

definition crypto_aead_xchacha20poly1305_ietf_decrypt_text ::
  "sodium \<Rightarrow> Uint8Array \<Rightarrow> Uint8Array \<Rightarrow> Uint8Array \<Rightarrow> error + Utf8String option" where
  "crypto_aead_xchacha20poly1305_ietf_decrypt_text sod c n k =
     (case crypto_aead_xchacha20poly1305_ietf_decrypt sod c n k of
        None \<Rightarrow> Inl PrimitiveError
      | Some None \<Rightarrow> Inr None
      | Some (Some message) \<Rightarrow>
          (case text_output message of
             None \<Rightarrow> Inl PrimitiveError
           | Some text \<Rightarrow> Inr (Some text)))"

text \<open>\<^verbatim>\<open>sha256.hkdf(key, salt, info, length)\<close> with \<open>info\<close> fixed to \<^verbatim>\<open>undefined\<close>.\<close>

type_synonym hkdf = "Uint8Array \<Rightarrow> Uint8Array \<Rightarrow> int option \<Rightarrow> Uint8Array option"

section \<open>The library: \<^verbatim>\<open>src/index.ts\<close>\<close>

text \<open>The separator \<^verbatim>\<open>':'\<close>, as its one code unit.\<close>

definition STRING_PARTITION :: jschar where
  "STRING_PARTITION = of_nat (of_char CHR '':'')"

definition Version :: jsstring where
  "Version = str ''001''"

definition ArgonLength :: int where
  "ArgonLength = 32"

definition ArgonSaltLength :: nat where
  "ArgonSaltLength = 16"

definition ArgonIterations :: int where
  "ArgonIterations = 5"

definition ArgonMemLimit :: int where
  "ArgonMemLimit = 67108864"

definition ArgonOutputKeyBytes :: nat where
  "ArgonOutputKeyBytes = 64"

definition EncryptionKeyLength :: nat where
  "EncryptionKeyLength = 32"

definition EncryptionNonceLength :: nat where
  "EncryptionNonceLength = 24"

definition generateEncryptionKey :: "(nat \<Rightarrow> byte) \<Rightarrow> HexString" where
  "generateEncryptionKey random = generateRandomKey random EncryptionKeyLength"

definition generateSalt :: "(nat \<Rightarrow> byte) \<Rightarrow> HexString" where
  "generateSalt random = generateRandomKey random ArgonSaltLength"

subsection \<open>Private functions\<close>

text \<open>The string \<open>plaintext\<close> is handed to the primitive, which takes its UTF-8 bytes.\<close>

definition xChaChaEncrypt ::
  "sodium \<Rightarrow> HexString \<Rightarrow> Utf8String \<Rightarrow> HexString \<Rightarrow> error + Base64String" where
  "xChaChaEncrypt sod key plaintext nonce =
     (if length nonce \<noteq> 48 then Inl NonceMustBe48Bytes
      else
        (case hexStringToArrayBuffer (Some nonce) of
           Inl e \<Rightarrow> Inl e
         | Inr n \<Rightarrow>
             (case hexStringToArrayBuffer (Some key) of
                Inl e \<Rightarrow> Inl e
              | Inr k \<Rightarrow>
                  (case crypto_aead_xchacha20poly1305_ietf_encrypt sod (from_string plaintext) n k of
                     None \<Rightarrow> Inl PrimitiveError
                   | Some arrayBuffer \<Rightarrow> Inr (arrayBufferToBase64 arrayBuffer)))))"

definition xChaChaEncryptBlob ::
  "sodium \<Rightarrow> HexString \<Rightarrow> Uint8Array \<Rightarrow> Uint8Array \<Rightarrow> error + Uint8Array" where
  "xChaChaEncryptBlob sod key plainblob nonceBuffer =
     (if length nonceBuffer \<noteq> 24 then Inl NonceBufferMustBe24Bytes
      else
        (case hexStringToArrayBuffer (Some key) of
           Inl e \<Rightarrow> Inl e
         | Inr k \<Rightarrow>
             (case crypto_aead_xchacha20poly1305_ietf_encrypt sod plainblob nonceBuffer k of
                None \<Rightarrow> Inl PrimitiveError
              | Some cipherblob \<Rightarrow> Inr cipherblob)))"

text \<open>
  \<open>ciphertext\<close> and \<open>nonce\<close> come from a destructured array and may be \<^verbatim>\<open>undefined\<close>.
  The three arguments are decoded in the order of the call, and the result of the
  primitive, asked for the output format \<^verbatim>\<open>'text'\<close>, is returned as it is: there is no
  check of the nonce's length and no \<^verbatim>\<open>try\<close>.
\<close>

definition xChaChaDecrypt ::
  "sodium \<Rightarrow> HexString \<Rightarrow> Base64String option \<Rightarrow> HexString option
     \<Rightarrow> error + Utf8String option" where
  "xChaChaDecrypt sod key ciphertext nonce =
     (case base64ToArrayBuffer ciphertext of
        Inl e \<Rightarrow> Inl e
      | Inr c \<Rightarrow>
          (case hexStringToArrayBuffer nonce of
             Inl e \<Rightarrow> Inl e
           | Inr n \<Rightarrow>
               (case hexStringToArrayBuffer (Some key) of
                  Inl e \<Rightarrow> Inl e
                | Inr k \<Rightarrow> crypto_aead_xchacha20poly1305_ietf_decrypt_text sod c n k)))"

definition xChaChaDecryptBlob ::
  "sodium \<Rightarrow> HexString \<Rightarrow> EncryptedBlobMessage \<Rightarrow> Uint8Array
     \<Rightarrow> error + Uint8Array option" where
  "xChaChaDecryptBlob sod key cipherblob nonceBuffer =
     (case hexStringToArrayBuffer (Some key) of
        Inl e \<Rightarrow> Inl e
      | Inr k \<Rightarrow>
          (case crypto_aead_xchacha20poly1305_ietf_decrypt sod cipherblob nonceBuffer k of
             None \<Rightarrow> Inl PrimitiveError
           | Some result \<Rightarrow> Inr result))"

subsection \<open>Public functions\<close>

definition encrypt ::
  "sodium \<Rightarrow> (nat \<Rightarrow> byte) \<Rightarrow> HexString \<Rightarrow> Utf8String \<Rightarrow> error + EncryptedMessage" where
  "encrypt sod random key plaintext =
     (let nonce = generateRandomKey random EncryptionNonceLength in
      case xChaChaEncrypt sod key plaintext nonce of
        Inl e \<Rightarrow> Inl e
      | Inr ciphertext \<Rightarrow> Inr (join STRING_PARTITION [Version, nonce, ciphertext]))"

definition encryptBlob ::
  "sodium \<Rightarrow> (nat \<Rightarrow> byte) \<Rightarrow> HexString \<Rightarrow> Uint8Array \<Rightarrow> error + EncryptedBlobMessage" where
  "encryptBlob sod random key plainblob =
     (let nonce = generateRandomKey random EncryptionNonceLength in
      case hexStringToArrayBuffer (Some nonce) of
        Inl e \<Rightarrow> Inl e
      | Inr nonceBuffer \<Rightarrow>
          (case xChaChaEncryptBlob sod key plainblob nonceBuffer of
             Inl e \<Rightarrow> Inl e
           | Inr cipherblob \<Rightarrow>
               (let versionBuffer = stringToArrayBuffer Version in
                Inr (concatUint8Arrays [versionBuffer, nonceBuffer, cipherblob]))))"

definition decrypt ::
  "sodium \<Rightarrow> HexString \<Rightarrow> EncryptedMessage \<Rightarrow> error + Utf8String option" where
  "decrypt sod key encryptedMessage =
     (let fields = split_limit STRING_PARTITION 3 encryptedMessage;
          version = element fields 0;
          nonce = element fields 1;
          ciphertext = element fields 2
      in if js_less version Version then Inl (InvalidVersion version)
         else xChaChaDecrypt sod key ciphertext nonce)"

definition decryptBlob ::
  "sodium \<Rightarrow> HexString \<Rightarrow> EncryptedBlobMessage \<Rightarrow> error + Uint8Array option" where
  "decryptBlob sod key encryptedMessage =
     (let versionBuffer = slice 0 (length Version) encryptedMessage in
      case arrayBufferToString versionBuffer of
        Inl e \<Rightarrow> Inl e
      | Inr version \<Rightarrow>
          if str_less version Version then Inl (InvalidVersion (Some version))
          else
            (let nonceBuffer =
                   slice (length Version) (length Version + EncryptionNonceLength) encryptedMessage;
                 cipherblob = slice_from (length Version + EncryptionNonceLength) encryptedMessage
             in xChaChaDecryptBlob sod key cipherblob nonceBuffer))"

text \<open>\<open>hash\<close> turns the salt into bytes with \<^verbatim>\<open>stringToArrayBuffer\<close>, as it does the key.\<close>

definition hash :: "hkdf \<Rightarrow> Utf8String \<Rightarrow> HexString \<Rightarrow> int option \<Rightarrow> error + HexString" where
  "hash hkdf' key salt length' =
     (case hkdf' (stringToArrayBuffer key) (stringToArrayBuffer salt) length' of
        None \<Rightarrow> Inl PrimitiveError
      | Some result \<Rightarrow> Inr (arrayBufferToHexString result))"

text \<open>
  The optional parameters \<open>iterations\<close>, \<open>bytes\<close> and \<open>length\<close> take their defaults when
  they are \<^verbatim>\<open>undefined\<close>. The output format \<^verbatim>\<open>'hex'\<close> is the hex encoding of the derived
  bytes.
\<close>

definition hashPassword ::
  "sodium \<Rightarrow> Utf8String \<Rightarrow> HexString \<Rightarrow> int option \<Rightarrow> int option \<Rightarrow> int option
     \<Rightarrow> error + HexString" where
  "hashPassword sod password salt iterations bytes length' =
     (let iterations = (case iterations of None \<Rightarrow> ArgonIterations | Some i \<Rightarrow> i);
          bytes = (case bytes of None \<Rightarrow> ArgonMemLimit | Some b \<Rightarrow> b);
          length' = (case length' of None \<Rightarrow> ArgonLength | Some l \<Rightarrow> l)
      in case hexStringToArrayBuffer (Some salt) of
           Inl e \<Rightarrow> Inl e
         | Inr s \<Rightarrow>
             (case crypto_pwhash sod length' (stringToArrayBuffer password) s iterations bytes of
                None \<Rightarrow> Inl PrimitiveError
              | Some result \<Rightarrow> Inr (to_hex result)))"

section \<open>Vocabulary of the properties\<close>

text \<open>An encryption key as the interface takes it: 32 bytes, written as 64 hex characters.\<close>

definition valid_key :: "HexString \<Rightarrow> bool" where
  "valid_key key = (length key = 64 \<and> list_all is_hex_char key)"

text \<open>
  What the library expects of the AEAD primitive: with a 32-byte key and a 24-byte nonce,
  encryption returns a ciphertext, and decryption of that ciphertext under the same key
  and nonce returns the message.
\<close>

definition aead_correct :: "sodium \<Rightarrow> bool" where
  "aead_correct sod =
     (\<forall>message nonce key. length key = 32 \<and> length nonce = 24 \<longrightarrow>
        (\<exists>c. crypto_aead_xchacha20poly1305_ietf_encrypt sod message nonce key = Some c \<and>
             crypto_aead_xchacha20poly1305_ietf_decrypt sod c nonce key = Some (Some message)))"

text \<open>The number of separators in a string.\<close>

definition separators :: "jsstring \<Rightarrow> nat" where
  "separators s = length (filter (\<lambda>c. c = STRING_PARTITION) s)"

section \<open>An instance of the primitives\<close>

text \<open>
  A small stand-in for the primitives, to run the model on concrete inputs. It has the
  interface and the input checks of the real ones (key of 32 bytes, nonce of 24 bytes, a
  16-byte tag at the end of the ciphertext, a salt of 16 bytes) and none of their
  strength: the tag is a sum. As the library does, its decryption throws when the tag
  does not verify (\<^verbatim>\<open>'ciphertext cannot be decrypted using that key'\<close>); it never
  returns \<^verbatim>\<open>null\<close>.
\<close>

definition test_tag :: "Uint8Array \<Rightarrow> Uint8Array \<Rightarrow> Uint8Array \<Rightarrow> Uint8Array" where
  "test_tag body nonce key = map (\<lambda>i. sum_list (key @ nonce @ body)) [0..<16]"

definition test_encrypt :: "Uint8Array \<Rightarrow> Uint8Array \<Rightarrow> Uint8Array \<Rightarrow> Uint8Array option" where
  "test_encrypt message nonce key =
     (if length key \<noteq> 32 \<or> length nonce \<noteq> 24 then None
      else (let body = map (\<lambda>b. b + sum_list key) message
            in Some (body @ test_tag body nonce key)))"

definition test_decrypt ::
  "Uint8Array \<Rightarrow> Uint8Array \<Rightarrow> Uint8Array \<Rightarrow> Uint8Array option option" where
  "test_decrypt ciphertext nonce key =
     (if length key \<noteq> 32 \<or> length nonce \<noteq> 24 \<or> length ciphertext < 16 then None
      else (let n = length ciphertext - 16;
                body = take n ciphertext;
                tag = drop n ciphertext
            in if tag = test_tag body nonce key
               then Some (Some (map (\<lambda>b. b - sum_list key) body))
               else None))"

definition test_pwhash ::
  "int \<Rightarrow> Uint8Array \<Rightarrow> Uint8Array \<Rightarrow> int \<Rightarrow> int \<Rightarrow> Uint8Array option" where
  "test_pwhash len password salt opslimit memlimit =
     (if len < 16 \<or> length salt \<noteq> 16 \<or> opslimit < 1 \<or> memlimit < 8192 then None
      else Some (map (\<lambda>i. sum_list (password @ salt) + of_int opslimit + of_int memlimit)
                   [0..<nat len]))"

definition test_sodium :: sodium where
  "test_sodium =
     \<lparr>crypto_aead_xchacha20poly1305_ietf_encrypt = test_encrypt,
      crypto_aead_xchacha20poly1305_ietf_decrypt = test_decrypt,
      crypto_pwhash = test_pwhash\<rparr>"

definition test_hkdf :: hkdf where
  "test_hkdf key salt len =
     (case len of
        None \<Rightarrow> Some (map (\<lambda>i. sum_list (key @ salt)) [0..<32])
      | Some l \<Rightarrow> if l < 0 \<or> 8160 < l then None
                  else Some (map (\<lambda>i. sum_list (key @ salt)) [0..<nat l]))"

definition test_random :: "nat \<Rightarrow> byte" where
  "test_random i = of_nat (7 * i + 3)"

definition test_key :: HexString where
  "test_key = str ''000102030405060708090a0b0c0d0e0f101112131415161718191a1b1c1d1e1f''"

definition other_key :: HexString where
  "other_key = str ''0000000000000000000000000000000000000000000000000000000000000000''"

section \<open>Properties of the encodings\<close>

lemma unat_byte_lt: "unat (b :: byte) < 256"
  using unsigned_less [of b, where ?'a = nat] by simp


subsection \<open>Hexadecimal\<close>

lemma byte_nibbles: "unat (b :: byte) div 16 < 16" "unat b mod 16 < 16"
  using unat_byte_lt [of b] by simp_all

lemma hexval_hexdigit: "n < 16 \<Longrightarrow> hexval (hexdigit n) = Some n"
  by (auto simp add: hexval_def hexdigit_def unat_of_nat Let_def take_bit_nat_eq_self)

lemma from_hex_to_hex: "from_hex (to_hex bs) = Some bs"
  by (induction bs) (simp_all add: hexval_hexdigit byte_nibbles)

lemma length_to_hex: "length (to_hex bs) = 2 * length bs"
  by (induction bs) simp_all

lemma to_hex_chars: "list_all is_hex_char (to_hex bs)"
  by (induction bs) (simp_all add: is_hex_char_def hexval_hexdigit byte_nibbles)

lemma from_hex_length: "from_hex s = Some bs \<Longrightarrow> length s = 2 * length bs"
  by (induction s arbitrary: bs rule: from_hex.induct) (auto split: option.splits)

lemma from_hex_chars:
  "even (length s) \<Longrightarrow> list_all is_hex_char s \<Longrightarrow> \<exists>bs. from_hex s = Some bs"
  by (induction s rule: from_hex.induct) (auto simp add: is_hex_char_def)

subsection \<open>Base64\<close>

lemma b64val_b64char: "n < 64 \<Longrightarrow> b64val (b64char n) = Some n"
  by (auto simp add: b64val_def b64char_def unat_of_nat Let_def take_bit_nat_eq_self)

lemma b64char_not_pad: "n < 64 \<Longrightarrow> b64char n \<noteq> b64pad"
  by (auto simp add: b64char_def b64pad_def word_eq_iff_unsigned [where ?'a = nat]
      unat_of_nat take_bit_nat_eq_self)

lemma triple_lt: "triple a b c < 16777216"
  using unat_byte_lt [of a] unat_byte_lt [of b] unat_byte_lt [of c]
  by (simp add: triple_def)

lemma sextets_lt:
  "triple a b c div 262144 < 64" "(n::nat) div 4096 mod 64 < 64" "n div 64 mod 64 < 64"
  "n mod 64 < 64"
  using triple_lt [of a b c] by simp_all

lemma base64_digits:
  fixes n :: nat
  shows "n div 4096 * 64 + n div 64 mod 64 = n div 64"
    and "n div 262144 * 64 + n div 4096 mod 64 = n div 4096"
proof -
  have "n div 262144 = n div 4096 div 64" "n div 4096 = n div 64 div 64"
    by (simp_all add: div_mult2_eq [symmetric])
  then show "n div 4096 * 64 + n div 64 mod 64 = n div 64"
    and "n div 262144 * 64 + n div 4096 mod 64 = n div 4096"
    by simp_all
qed

lemma of_sextets_sextets:
  "of_sextets (n div 262144) (n div 4096 mod 64) (n div 64 mod 64) (n mod 64) = n"
  by (simp only: of_sextets_def base64_digits div_mult_mod_eq)

lemma base256:
  fixes x c :: nat
  assumes "c < 256"
  shows "(x * 256 + c) mod 256 = c" and "(x * 256 + c) div 256 = x"
  using assms by simp_all

lemma octets_triple: "octets (triple a b c) = [a, b, c]"
proof -
  let ?n = "triple a b c"
  have c: "?n mod 256 = unat c" and d: "?n div 256 = unat a * 256 + unat b"
    by (simp_all only: triple_def base256 [OF unat_byte_lt])
  have "?n div 65536 = ?n div 256 div 256"
    by (simp add: div_mult2_eq [symmetric])
  then have a: "?n div 65536 = unat a" and b: "?n div 256 mod 256 = unat b"
    by (simp_all only: d base256 [OF unat_byte_lt])
  show ?thesis
    by (simp add: octets_def a b c)
qed

lemma triple_pad:
  "triple a b 0 mod 64 = 0" "triple a 0 0 mod 64 = 0" "triple a 0 0 div 64 mod 64 = 0"
proof -
  have "triple a b 0 = 64 * (4 * (unat a * 256 + unat b))"
    and "triple a 0 0 = 64 * (64 * (unat a * 16))"
    by (simp_all add: triple_def)
  then show "triple a b 0 mod 64 = 0" "triple a 0 0 mod 64 = 0"
    "triple a 0 0 div 64 mod 64 = 0"
    by simp_all
qed

lemma from_base64_to_base64: "from_base64 (to_base64 bs) = Some bs"
proof (induction bs rule: to_base64.induct)
  case 1
  show ?case by simp
next
  case (2 a)
  have "of_sextets (triple a 0 0 div 262144) (triple a 0 0 div 4096 mod 64) 0 0 = triple a 0 0"
    using of_sextets_sextets [of "triple a 0 0"] by (simp only: triple_pad)
  then show ?case
    by (simp add: sextets_def b64val_b64char b64char_not_pad sextets_lt octets_triple)
next
  case (3 a b)
  have "of_sextets (triple a b 0 div 262144) (triple a b 0 div 4096 mod 64)
          (triple a b 0 div 64 mod 64) 0 = triple a b 0"
    using of_sextets_sextets [of "triple a b 0"] by (simp only: triple_pad)
  then show ?case
    by (simp add: sextets_def b64val_b64char b64char_not_pad sextets_lt octets_triple)
next
  case (4 a b c bs)
  then show ?case
    by (simp add: sextets_def b64val_b64char b64char_not_pad sextets_lt octets_triple
        of_sextets_sextets)
qed

lemma to_base64_chars: "list_all is_base64_char (to_base64 bs)"
  by (induction bs rule: to_base64.induct)
    (simp_all add: is_base64_char_def sextets_def b64val_b64char sextets_lt)

subsection \<open>UTF-8\<close>


lemma unat_of_nat_jschar: "k < 65536 \<Longrightarrow> unat (of_nat k :: jschar) = k"
  by (simp add: unat_of_nat take_bit_nat_eq_self)
















section \<open>Properties of the library\<close>

lemma split_not_Nil: "split sep s \<noteq> []"
  by (induction s) (auto split: list.splits)

lemma split_no_sep: "sep \<notin> set a \<Longrightarrow> split sep a = [a]"
  by (induction a) auto

lemma split_append: "sep \<notin> set a \<Longrightarrow> split sep (a @ sep # rest) = a # split sep rest"
  by (induction a) auto

lemma split_hd: "split sep s = takeWhile (\<lambda>c. c \<noteq> sep) s # tl (split sep s)"
  by (induction s) (auto split: list.splits)

lemma hex_not_sep: "is_hex_char c \<Longrightarrow> c \<noteq> STRING_PARTITION"
  by (auto simp add: is_hex_char_def hexval_def STRING_PARTITION_def)

lemma base64_not_sep: "is_base64_char c \<Longrightarrow> c \<noteq> STRING_PARTITION"
  by (auto simp add: is_base64_char_def b64val_def b64pad_def STRING_PARTITION_def)

lemma to_hex_no_sep: "STRING_PARTITION \<notin> set (to_hex bs)"
  using to_hex_chars [of bs] hex_not_sep by (auto simp add: list_all_iff)

lemma to_base64_no_sep: "STRING_PARTITION \<notin> set (to_base64 bs)"
  using to_base64_chars [of bs] base64_not_sep by (auto simp add: list_all_iff)

lemma Version_chars: "Version = [48, 48, 49]"
  by (simp add: Version_def str_def)

lemma Version_no_sep: "STRING_PARTITION \<notin> set Version"
  by (simp add: Version_chars STRING_PARTITION_def)

lemma not_Version_less: "\<not> str_less Version Version"
  by (simp add: Version_chars)

lemma from_string_Version: "from_string Version = [48, 48, 49]"
  by (simp add: Version_chars from_string_def utf8_encode_def is_high_def is_low_def)

lemma to_string_Version: "to_string [48, 48, 49] = Some Version"
  by (simp add: Version_chars to_string_def code_units_def)

lemma valid_key_bytes:
  assumes "valid_key key"
  obtains k where "from_hex key = Some k" "length k = 32"
proof -
  from assms have "even (length key)" "list_all is_hex_char key" "length key = 64"
    by (simp_all add: valid_key_def)
  then obtain k where k: "from_hex key = Some k"
    using from_hex_chars by blast
  with \<open>length key = 64\<close> have "length k = 32"
    using from_hex_length [OF k] by simp
  with k that show ?thesis by blast
qed

lemma nonce_properties:
  "length (generateRandomKey random EncryptionNonceLength) = 48"
  "from_hex (generateRandomKey random EncryptionNonceLength) = Some (map random [0..<24])"
  "list_all is_hex_char (generateRandomKey random EncryptionNonceLength)"
  "STRING_PARTITION \<notin> set (generateRandomKey random EncryptionNonceLength)"
  by (simp_all add: generateRandomKey_def arrayBufferToHexString_def EncryptionNonceLength_def
      length_to_hex from_hex_to_hex to_hex_chars to_hex_no_sep)







lemma aead_correct_test: "aead_correct test_sodium"
  by (simp add: aead_correct_def test_sodium_def test_encrypt_def test_decrypt_def Let_def
      test_tag_def comp_def)

lemma stringToArrayBuffer_Version: "stringToArrayBuffer Version = [48, 48, 49]"
  by (simp add: stringToArrayBuffer_def from_string_Version)

lemma encryptBlob_returns:
  assumes "from_hex key = Some k"
    and "crypto_aead_xchacha20poly1305_ietf_encrypt sod plainblob (map random [0..<24]) k = Some c"
  shows "encryptBlob sod random key plainblob = Inr ([48, 48, 49] @ map random [0..<24] @ c)"
  using assms
  by (simp add: encryptBlob_def xChaChaEncryptBlob_def hexStringToArrayBuffer_def
      nonce_properties concatUint8Arrays_def stringToArrayBuffer_Version Let_def)

lemma decryptBlob_envelope:
  assumes "from_hex key = Some k" and "length n = 24"
  shows "decryptBlob sod key ([48, 48, 49] @ n @ c) =
    (case crypto_aead_xchacha20poly1305_ietf_decrypt sod c n k of
       None \<Rightarrow> Inl PrimitiveError
     | Some result \<Rightarrow> Inr result)"
  using assms
  by (simp add: decryptBlob_def slice_def slice_from_def Version_chars [THEN arg_cong, of length]
      arrayBufferToString_def to_string_Version not_Version_less EncryptionNonceLength_def
      xChaChaDecryptBlob_def hexStringToArrayBuffer_def Let_def)

text \<open>
  Claim C2. For every key of 32 bytes and every byte sequence, \<open>encryptBlob\<close> returns an
  envelope, and \<open>decryptBlob\<close> of it under the same key returns the same byte sequence:
  not \<^verbatim>\<open>null\<close>, and nothing is thrown.
\<close>

theorem encryptBlob_decryptBlob_roundtrip:
  assumes "aead_correct sod" and "valid_key key"
  shows "\<exists>envelope. encryptBlob sod random key plainblob = Inr envelope \<and>
           decryptBlob sod key envelope = Inr (Some plainblob)"
proof -
  from \<open>valid_key key\<close> obtain k where k: "from_hex key = Some k" "length k = 32"
    by (rule valid_key_bytes)
  let ?n = "map random [0..<24]"
  have n: "length ?n = 24" by simp
  from \<open>aead_correct sod\<close> k(2) n obtain c
    where enc: "crypto_aead_xchacha20poly1305_ietf_encrypt sod plainblob ?n k = Some c"
      and dec: "crypto_aead_xchacha20poly1305_ietf_decrypt sod c ?n k = Some (Some plainblob)"
    unfolding aead_correct_def by blast
  have "encryptBlob sod random key plainblob = Inr ([48, 48, 49] @ ?n @ c)"
    using k(1) enc by (rule encryptBlob_returns)
  moreover have "decryptBlob sod key ([48, 48, 49] @ ?n @ c) = Inr (Some plainblob)"
    by (simp only: decryptBlob_envelope [OF k(1) n] dec option.case)
  ultimately show ?thesis by blast
qed


lemma decrypt_fields:
  assumes "split_limit STRING_PARTITION 3 envelope = [version, nonce, ciphertext]"
    and "\<not> str_less version Version"
  shows "decrypt sod key envelope = xChaChaDecrypt sod key (Some ciphertext) (Some nonce)"
  using assms by (simp add: decrypt_def element_def js_less_def Let_def)

lemma xChaChaDecrypt_decoded:
  assumes "from_base64 ciphertext = Some c" and "from_hex nonce = Some n"
    and "from_hex key = Some k"
  shows "xChaChaDecrypt sod key (Some ciphertext) (Some nonce) =
    crypto_aead_xchacha20poly1305_ietf_decrypt_text sod c n k"
  using assms
  by (simp add: xChaChaDecrypt_def base64ToArrayBuffer_def hexStringToArrayBuffer_def)

lemma length_Version: "length Version = 3"
  by (simp add: Version_chars)

lemma decryptBlob_regions:
  assumes "to_string (take 3 blob) = Some version" and "\<not> str_less version Version"
    and "from_hex key = Some k"
  shows "decryptBlob sod key blob =
    (case crypto_aead_xchacha20poly1305_ietf_decrypt sod (drop 27 blob) (drop 3 (take 27 blob)) k of
       None \<Rightarrow> Inl PrimitiveError
     | Some result \<Rightarrow> Inr result)"
  using assms
  by (simp add: decryptBlob_def slice_def slice_from_def length_Version arrayBufferToString_def
      EncryptionNonceLength_def xChaChaDecryptBlob_def hexStringToArrayBuffer_def Let_def)

text \<open>
  Claim C3. The claim, like the docstrings of \<open>decrypt\<close> and \<open>decryptBlob\<close> (\<^verbatim>\<open>or null if
  decryption fails\<close>), says that a failed tag verification gives \<^verbatim>\<open>null\<close>. The library's
  AEAD decryption throws when the tag does not verify, and neither function catches
  anything: for an envelope that parses, whatever the primitive throws is thrown by
  \<open>decrypt\<close> and \<open>decryptBlob\<close>, and \<^verbatim>\<open>null\<close> is returned only when the primitive itself
  returns it.
\<close>

theorem decrypt_does_not_catch:
  "(split_limit STRING_PARTITION 3 envelope = [version, nonce, ciphertext] \<and>
    \<not> str_less version Version \<and>
    from_base64 ciphertext = Some c \<and> from_hex nonce = Some n \<and> from_hex key = Some k
      \<longrightarrow> (crypto_aead_xchacha20poly1305_ietf_decrypt sod c n k = None
             \<longrightarrow> decrypt sod key envelope = Inl PrimitiveError) \<and>
          (decrypt sod key envelope = Inr None
             \<longrightarrow> crypto_aead_xchacha20poly1305_ietf_decrypt sod c n k = Some None)) \<and>
   (to_string (take 3 blob) = Some version' \<and> \<not> str_less version' Version \<and>
    from_hex key' = Some k'
      \<longrightarrow> (crypto_aead_xchacha20poly1305_ietf_decrypt sod (drop 27 blob)
               (drop 3 (take 27 blob)) k' = None
             \<longrightarrow> decryptBlob sod key' blob = Inl PrimitiveError) \<and>
          (decryptBlob sod key' blob = Inr None
             \<longrightarrow> crypto_aead_xchacha20poly1305_ietf_decrypt sod (drop 27 blob)
                   (drop 3 (take 27 blob)) k' = Some None))"
  by (auto simp add: decrypt_fields xChaChaDecrypt_decoded decryptBlob_regions
      crypto_aead_xchacha20poly1305_ietf_decrypt_text_def split: option.splits)

lemma xChaChaDecrypt_error:
  "xChaChaDecrypt sod key ciphertext nonce = Inl e \<Longrightarrow> e = DecodingError \<or> e = PrimitiveError"
  by (auto simp add: xChaChaDecrypt_def base64ToArrayBuffer_def hexStringToArrayBuffer_def
      crypto_aead_xchacha20poly1305_ietf_decrypt_text_def split: option.splits sum.splits)

lemma xChaChaDecryptBlob_error:
  "xChaChaDecryptBlob sod key cipherblob nonceBuffer = Inl e \<Longrightarrow>
     e = DecodingError \<or> e = PrimitiveError"
  by (auto simp add: xChaChaDecryptBlob_def hexStringToArrayBuffer_def
      split: option.splits sum.splits)

lemma xChaChaDecrypt_own_errors:
  "xChaChaDecrypt sod key ciphertext nonce \<noteq> Inl (InvalidVersion v)"
  "xChaChaDecrypt sod key ciphertext nonce \<noteq> Inl NonceMustBe48Bytes"
  "xChaChaDecrypt sod key ciphertext nonce \<noteq> Inl NonceBufferMustBe24Bytes"
  using xChaChaDecrypt_error [of sod key ciphertext nonce] by auto

lemma xChaChaDecryptBlob_own_errors:
  "xChaChaDecryptBlob sod key cipherblob nonceBuffer \<noteq> Inl (InvalidVersion v)"
  "xChaChaDecryptBlob sod key cipherblob nonceBuffer \<noteq> Inl NonceMustBe48Bytes"
  "xChaChaDecryptBlob sod key cipherblob nonceBuffer \<noteq> Inl NonceBufferMustBe24Bytes"
  using xChaChaDecryptBlob_error [of sod key cipherblob nonceBuffer] by auto

lemma first_field:
  "element (split_limit STRING_PARTITION 3 s) 0 = Some (takeWhile (\<lambda>c. c \<noteq> STRING_PARTITION) s)"
proof -
  obtain fs where "split STRING_PARTITION s = takeWhile (\<lambda>c. c \<noteq> STRING_PARTITION) s # fs"
    using split_hd by blast
  then show ?thesis
    by (simp add: element_def split_limit_def)
qed

lemma decrypt_version_error:
  "(\<exists>v. decrypt sod key envelope = Inl (InvalidVersion v)) \<longleftrightarrow>
     str_less (takeWhile (\<lambda>c. c \<noteq> STRING_PARTITION) envelope) Version"
proof (cases "str_less (takeWhile (\<lambda>c. c \<noteq> STRING_PARTITION) envelope) Version")
  case True
  then show ?thesis
    by (simp add: decrypt_def Let_def first_field js_less_def)
next
  case False
  then have "decrypt sod key envelope =
      xChaChaDecrypt sod key (element (split_limit STRING_PARTITION 3 envelope) 2)
        (element (split_limit STRING_PARTITION 3 envelope) 1)"
    by (simp add: decrypt_def Let_def first_field js_less_def)
  with False show ?thesis
    by (simp add: xChaChaDecrypt_own_errors)
qed

lemma decryptBlob_version_error:
  "(\<exists>v. decryptBlob sod key blob = Inl (InvalidVersion v)) \<longleftrightarrow>
     (\<exists>version. to_string (take 3 blob) = Some version \<and> str_less version Version)"
proof (cases "to_string (take 3 blob)")
  case None
  then show ?thesis
    by (simp add: decryptBlob_def slice_def length_Version arrayBufferToString_def)
next
  case (Some version)
  show ?thesis
  proof (cases "str_less version Version")
    case True
    with Some show ?thesis
      by (simp add: decryptBlob_def slice_def length_Version arrayBufferToString_def)
  next
    case False
    with Some have "decryptBlob sod key blob =
        xChaChaDecryptBlob sod key (drop 27 blob) (drop 3 (take 27 blob))"
      by (simp add: decryptBlob_def slice_def slice_from_def length_Version
          arrayBufferToString_def EncryptionNonceLength_def Let_def)
    with Some False show ?thesis
      by (simp add: xChaChaDecryptBlob_own_errors)
  qed
qed

lemma str_less_asym: "str_less a b \<Longrightarrow> \<not> str_less b a"
  by (induction a b rule: str_less.induct) auto

text \<open>
  Claim C4. \<open>decrypt\<close> and \<open>decryptBlob\<close> throw the version error exactly when the parsed
  version (the text before the first separator; the first three bytes of a blob, decoded)
  is lexicographically smaller than the current version \<^verbatim>\<open>"001"\<close>. The version
  \<^verbatim>\<open>"000"\<close> is smaller, \<^verbatim>\<open>"001"\<close> is not, and no version greater than \<^verbatim>\<open>"001"\<close> is.
\<close>

theorem version_check:
  "((\<exists>v. decrypt sod key envelope = Inl (InvalidVersion v)) \<longleftrightarrow>
      str_less (takeWhile (\<lambda>c. c \<noteq> STRING_PARTITION) envelope) Version) \<and>
   ((\<exists>v. decryptBlob sod key blob = Inl (InvalidVersion v)) \<longleftrightarrow>
      (\<exists>version. to_string (take 3 blob) = Some version \<and> str_less version Version)) \<and>
   Version = str ''001'' \<and>
   str_less (str ''000'') Version \<and>
   \<not> str_less (str ''001'') Version \<and>
   (str_less Version newer \<longrightarrow> \<not> str_less newer Version)"
  using decrypt_version_error [of sod key envelope] decryptBlob_version_error [of sod key blob]
    str_less_asym [of Version newer]
  by (simp add: Version_def str_def)


lemma split_fields_no_sep: "f \<in> set (split sep s) \<Longrightarrow> sep \<notin> set f"
  by (induction s arbitrary: f) (auto split: if_splits list.splits)

lemma split_join:
  "fs \<noteq> [] \<Longrightarrow> \<forall>f \<in> set fs. sep \<notin> set f \<Longrightarrow> split sep (join sep fs) = fs"
proof (induction fs rule: join.induct)
  case (1 sep)
  then show ?case by simp
next
  case (2 sep x)
  then show ?case by (simp add: split_no_sep)
next
  case (3 sep x y zs)
  then show ?case by (simp add: split_append)
qed

lemma split_limit_join:
  "split_limit STRING_PARTITION 3
     (join STRING_PARTITION (take 3 (split STRING_PARTITION s))) =
   split_limit STRING_PARTITION 3 s"
proof -
  let ?fs = "take 3 (split STRING_PARTITION s)"
  have "?fs \<noteq> []" by (simp add: split_not_Nil)
  moreover have "\<forall>f \<in> set ?fs. STRING_PARTITION \<notin> set f"
    using split_fields_no_sep by (metis in_set_takeD)
  ultimately have "split STRING_PARTITION (join STRING_PARTITION ?fs) = ?fs"
    by (rule split_join)
  then show ?thesis by (simp add: split_limit_def)
qed

lemma decrypt_first_three:
  "decrypt sod key (join STRING_PARTITION (take 3 (split STRING_PARTITION envelope))) =
   decrypt sod key envelope"
  by (simp only: decrypt_def split_limit_join)

lemma decrypt_few_fields:
  assumes "length (split STRING_PARTITION envelope) < 3"
  shows "decrypt sod key envelope =
    (if str_less (takeWhile (\<lambda>c. c \<noteq> STRING_PARTITION) envelope) Version
     then Inl (InvalidVersion (Some (takeWhile (\<lambda>c. c \<noteq> STRING_PARTITION) envelope)))
     else Inl DecodingError)"
proof -
  from assms have "element (split_limit STRING_PARTITION 3 envelope) 2 = None"
    by (simp add: element_def split_limit_def)
  then show ?thesis
    by (simp add: decrypt_def Let_def first_field js_less_def xChaChaDecrypt_def
        base64ToArrayBuffer_def)
qed

text \<open>
  Claim C5, as amended. \<open>decrypt\<close> has no check of the number of fields. With fewer than
  three fields it throws: the version error when the first field is smaller than
  \<^verbatim>\<open>"001"\<close>, a decoding error otherwise. With more than three fields the fields after the
  third are dropped by \<^verbatim>\<open>split(':', 3)\<close>, and \<open>decrypt\<close> does what it does on the first
  three fields alone.
\<close>

theorem decrypt_field_count:
  "(length (split STRING_PARTITION envelope) < 3 \<longrightarrow>
      decrypt sod key envelope =
        (if str_less (takeWhile (\<lambda>c. c \<noteq> STRING_PARTITION) envelope) Version
         then Inl (InvalidVersion (Some (takeWhile (\<lambda>c. c \<noteq> STRING_PARTITION) envelope)))
         else Inl DecodingError)) \<and>
   (3 < length (split STRING_PARTITION envelope) \<longrightarrow>
      decrypt sod key envelope =
        decrypt sod key (join STRING_PARTITION (take 3 (split STRING_PARTITION envelope))))"
  by (simp add: decrypt_few_fields decrypt_first_three)

lemma xChaChaEncrypt_result:
  assumes "xChaChaEncrypt sod key plaintext nonce = Inr ciphertext"
  shows "\<exists>c. ciphertext = to_base64 c"
  using assms
  by (auto simp add: xChaChaEncrypt_def hexStringToArrayBuffer_def arrayBufferToBase64_def
      split: if_splits option.splits sum.splits)

lemma xChaChaEncrypt_error:
  assumes "xChaChaEncrypt sod key plaintext nonce = Inl e" and "length nonce = 48"
  shows "e = DecodingError \<or> e = PrimitiveError"
  using assms
  by (auto simp add: xChaChaEncrypt_def hexStringToArrayBuffer_def
      split: if_splits option.splits sum.splits)

lemma separators_append: "separators (a @ b) = separators a + separators b"
  by (simp add: separators_def)

lemma separators_none: "STRING_PARTITION \<notin> set a \<Longrightarrow> separators a = 0"
  by (induction a) (auto simp add: separators_def)

lemma separators_Cons:
  "separators (c # s) = (if c = STRING_PARTITION then 1 else 0) + separators s"
  by (simp add: separators_def)

text \<open>
  Claim C6. An envelope returned by \<open>encrypt\<close> is the version \<^verbatim>\<open>"001"\<close> (three
  characters), a separator, a nonce of exactly 48 hex characters, a separator and the
  base64 encoding of a byte sequence; it holds exactly two separators. The nonce is the
  hex encoding of 24 bytes, and both fields decode again.
\<close>

theorem envelope_shape:
  assumes "encrypt sod random key plaintext = Inr envelope"
  shows "\<exists>nonce ciphertext n c.
           envelope = Version @ [STRING_PARTITION] @ nonce @ [STRING_PARTITION] @ ciphertext \<and>
           Version = str ''001'' \<and> length Version = 3 \<and>
           nonce = arrayBufferToHexString n \<and> length n = 24 \<and>
           length nonce = 48 \<and> list_all is_hex_char nonce \<and>
           hexStringToArrayBuffer (Some nonce) = Inr n \<and>
           ciphertext = arrayBufferToBase64 c \<and> list_all is_base64_char ciphertext \<and>
           base64ToArrayBuffer (Some ciphertext) = Inr c \<and>
           separators envelope = 2 \<and>
           split STRING_PARTITION envelope = [Version, nonce, ciphertext]"
proof -
  let ?n = "map random [0..<24]"
  let ?nonce = "generateRandomKey random EncryptionNonceLength"
  from assms obtain ciphertext
    where enc: "xChaChaEncrypt sod key plaintext ?nonce = Inr ciphertext"
      and env: "envelope = join STRING_PARTITION [Version, ?nonce, ciphertext]"
    by (auto simp add: encrypt_def Let_def split: sum.splits)
  from enc obtain c where c: "ciphertext = to_base64 c"
    using xChaChaEncrypt_result by blast
  have shape: "envelope = Version @ [STRING_PARTITION] @ ?nonce @ [STRING_PARTITION] @ ciphertext"
    by (simp add: env)
  have two: "separators envelope = 2"
    by (simp add: shape c separators_append separators_Cons separators_none Version_no_sep
        nonce_properties to_base64_no_sep)
  have fields: "split STRING_PARTITION envelope = [Version, ?nonce, ciphertext]"
    by (simp add: shape c split_append split_no_sep Version_no_sep nonce_properties
        to_base64_no_sep)
  have version: "Version = str ''001''" "length Version = 3"
    by (simp_all add: Version_def str_def)
  have nonce: "?nonce = arrayBufferToHexString ?n" "length ?n = 24" "length ?nonce = 48"
    "list_all is_hex_char ?nonce" "hexStringToArrayBuffer (Some ?nonce) = Inr ?n"
    by (simp_all add: nonce_properties hexStringToArrayBuffer_def)
      (simp add: generateRandomKey_def EncryptionNonceLength_def)
  have ciphertext: "ciphertext = arrayBufferToBase64 c" "list_all is_base64_char ciphertext"
    "base64ToArrayBuffer (Some ciphertext) = Inr c"
    by (simp_all add: c to_base64_chars arrayBufferToBase64_def base64ToArrayBuffer_def
        from_base64_to_base64)
  from shape version nonce ciphertext two fields show ?thesis
    by blast
qed

text \<open>
  Claim C9. The nonce that \<open>encrypt\<close> generates has exactly 48 characters, so the check
  in \<open>xChaChaEncrypt\<close> passes on every call: \<open>encrypt\<close> never throws
  \<^verbatim>\<open>'Nonce must be 48 bytes'\<close>.
\<close>

theorem nonce_check_always_passes:
  "length (generateRandomKey random EncryptionNonceLength) = 48 \<and>
   encrypt sod random key plaintext \<noteq> Inl NonceMustBe48Bytes"
proof -
  have len: "length (generateRandomKey random EncryptionNonceLength) = 48"
    by (simp add: nonce_properties)
  have "encrypt sod random key plaintext \<noteq> Inl NonceMustBe48Bytes"
  proof
    assume "encrypt sod random key plaintext = Inl NonceMustBe48Bytes"
    then have "xChaChaEncrypt sod key plaintext (generateRandomKey random EncryptionNonceLength)
        = Inl NonceMustBe48Bytes"
      by (simp add: encrypt_def Let_def split: sum.splits)
    from xChaChaEncrypt_error [OF this len] show False by simp
  qed
  with len show ?thesis by simp
qed

lemma decrypt_own_errors:
  "decrypt sod key envelope \<noteq> Inl NonceMustBe48Bytes"
  "decrypt sod key envelope \<noteq> Inl NonceBufferMustBe24Bytes"
  by (simp_all add: decrypt_def Let_def xChaChaDecrypt_own_errors)

lemma decryptBlob_own_errors:
  "decryptBlob sod key blob \<noteq> Inl NonceMustBe48Bytes"
  "decryptBlob sod key blob \<noteq> Inl NonceBufferMustBe24Bytes"
  by (simp_all add: decryptBlob_def arrayBufferToString_def Let_def xChaChaDecryptBlob_own_errors
      split: option.splits)

text \<open>
  Claim C10. The decryption paths have no check of the nonce's length. Neither
  \<open>decrypt\<close> nor \<open>decryptBlob\<close> ever throws one of the two nonce-length errors, and a
  nonce field that is not 48 characters long, or a nonce region shorter than 24 bytes,
  is handed to the AEAD primitive as it is.
\<close>

theorem decrypt_has_no_nonce_length_check:
  "decrypt sod key envelope \<noteq> Inl NonceMustBe48Bytes \<and>
   decrypt sod key envelope \<noteq> Inl NonceBufferMustBe24Bytes \<and>
   decryptBlob sod key blob \<noteq> Inl NonceMustBe48Bytes \<and>
   decryptBlob sod key blob \<noteq> Inl NonceBufferMustBe24Bytes \<and>
   (split_limit STRING_PARTITION 3 envelope = [version, nonce, ciphertext] \<and>
    \<not> str_less version Version \<and> length nonce \<noteq> 48 \<and>
    from_base64 ciphertext = Some c \<and> from_hex nonce = Some n \<and> from_hex key = Some k
      \<longrightarrow> decrypt sod key envelope =
           (case crypto_aead_xchacha20poly1305_ietf_decrypt sod c n k of
              None \<Rightarrow> Inl PrimitiveError
            | Some None \<Rightarrow> Inr None
            | Some (Some message) \<Rightarrow>
                (case text_output message of
                   None \<Rightarrow> Inl PrimitiveError
                 | Some text \<Rightarrow> Inr (Some text)))) \<and>
   (to_string (take 3 blob) = Some version' \<and> \<not> str_less version' Version \<and>
    length blob < 27 \<and> from_hex key = Some k
      \<longrightarrow> decryptBlob sod key blob =
           (case crypto_aead_xchacha20poly1305_ietf_decrypt sod [] (drop 3 blob) k of
              None \<Rightarrow> Inl PrimitiveError
            | Some result \<Rightarrow> Inr result))"
  by (auto simp add: decrypt_own_errors decryptBlob_own_errors decrypt_fields
      xChaChaDecrypt_decoded decryptBlob_regions
      crypto_aead_xchacha20poly1305_ietf_decrypt_text_def)

text \<open>
  Claim C8. \<open>hashPassword\<close> is one call of \<^verbatim>\<open>crypto_pwhash\<close> on the password's UTF-8
  bytes, the decoded salt, and the iterations, bytes and length given, with 5, 67108864
  and 32 in the place of those left out; its result is the hex encoding of what that
  call returns. So two calls with the same password, salt, iterations, bytes and length
  make the same call of the primitive and return the same output, and a call without the
  optional parameters is the call with iterations 5, bytes 67108864 and length 32.
\<close>

theorem hashPassword_deterministic:
  "hashPassword sod password salt iterations bytes length' =
     (case hexStringToArrayBuffer (Some salt) of
        Inl e \<Rightarrow> Inl e
      | Inr s \<Rightarrow>
          (case crypto_pwhash sod (case length' of None \<Rightarrow> 32 | Some l \<Rightarrow> l)
                  (stringToArrayBuffer password) s
                  (case iterations of None \<Rightarrow> 5 | Some i \<Rightarrow> i)
                  (case bytes of None \<Rightarrow> 67108864 | Some b \<Rightarrow> b) of
             None \<Rightarrow> Inl PrimitiveError
           | Some result \<Rightarrow> Inr (arrayBufferToHexString result))) \<and>
   hashPassword sod password salt None None None =
     (case hexStringToArrayBuffer (Some salt) of
        Inl e \<Rightarrow> Inl e
      | Inr s \<Rightarrow>
          (case crypto_pwhash sod 32 (stringToArrayBuffer password) s 5 67108864 of
             None \<Rightarrow> Inl PrimitiveError
           | Some result \<Rightarrow> Inr (arrayBufferToHexString result))) \<and>
   hashPassword sod password salt None None None =
     hashPassword sod password salt (Some 5) (Some 67108864) (Some 32)"
  by (simp add: hashPassword_def ArgonIterations_def ArgonMemLimit_def ArgonLength_def
      arrayBufferToHexString_def split: sum.splits option.splits)

section \<open>The claims at concrete inputs\<close>

lemmas run =
  str_def test_key_def other_key_def test_random_def test_sodium_def test_encrypt_def
  test_decrypt_def test_tag_def test_pwhash_def test_hkdf_def
  encrypt_def decrypt_def encryptBlob_def decryptBlob_def xChaChaEncrypt_def
  xChaChaEncryptBlob_def xChaChaDecrypt_def xChaChaDecryptBlob_def hash_def hashPassword_def
  generateRandomKey_def EncryptionNonceLength_def arrayBufferToHexString_def
  hexStringToArrayBuffer_def arrayBufferToBase64_def base64ToArrayBuffer_def
  stringToArrayBuffer_def arrayBufferToString_def concatUint8Arrays_def
  Version_def STRING_PARTITION_def split_limit_def element_def js_less_def slice_def
  slice_from_def hexdigit_def hexval_def is_hex_char_def valid_key_def b64char_def b64val_def
  b64pad_def is_base64_char_def triple_def sextets_def of_sextets_def octets_def
  from_string_def to_string_def is_high_def is_low_def is_scalar_def utf8_encode_def
  code_units_def continuation_def separators_def strip_bom_def text_output_def
  crypto_aead_xchacha20poly1305_ietf_decrypt_text_def
  ArgonIterations_def ArgonMemLimit_def ArgonLength_def upt_conv_Cons Let_def

lemma valid_test_key: "valid_key test_key"
  by (simp add: run)


lemma encrypt_hello:
  "encrypt test_sodium test_random test_key (str ''hello'') = Inr (str ''001:030a11181f262d343b424950575e656c737a81888f969da4:WFVcXF+IiIiIiIiIiIiIiIiIiIiI'')"
  by (simp add: run)

lemma encryptBlob_123:
  "encryptBlob test_sodium test_random test_key [1, 2, 3] =
     Inr [48, 48, 49, 3, 10, 17, 24, 31, 38, 45, 52, 59, 66, 73, 80, 87, 94, 101, 108, 115, 122, 129, 136, 143, 150, 157, 164, 241, 242, 243, 154, 154, 154, 154, 154, 154, 154, 154, 154, 154, 154, 154, 154, 154, 154, 154]"
  by (simp add: run)



theorem encryptBlob_decryptBlob_roundtrip_witness:
  "aead_correct test_sodium \<and> valid_key test_key \<and>
   encryptBlob test_sodium test_random test_key [1, 2, 3] =
     Inr [48, 48, 49, 3, 10, 17, 24, 31, 38, 45, 52, 59, 66, 73, 80, 87, 94, 101, 108, 115, 122, 129, 136, 143, 150, 157, 164, 241, 242, 243, 154, 154, 154, 154, 154, 154, 154, 154, 154, 154, 154, 154, 154, 154, 154, 154] \<and>
   decryptBlob test_sodium test_key
     [48, 48, 49, 3, 10, 17, 24, 31, 38, 45, 52, 59, 66, 73, 80, 87, 94, 101, 108, 115, 122, 129, 136, 143, 150, 157, 164, 241, 242, 243, 154, 154, 154, 154, 154, 154, 154, 154, 154, 154, 154, 154, 154, 154, 154, 154] = Inr (Some [1, 2, 3])"
proof -
  from encryptBlob_decryptBlob_roundtrip [OF aead_correct_test valid_test_key,
      of test_random "[1, 2, 3]"]
  have "decryptBlob test_sodium test_key
      [48, 48, 49, 3, 10, 17, 24, 31, 38, 45, 52, 59, 66, 73, 80, 87, 94, 101, 108, 115, 122, 129, 136, 143, 150, 157, 164, 241, 242, 243, 154, 154, 154, 154, 154, 154, 154, 154, 154, 154, 154, 154, 154, 154, 154, 154] = Inr (Some [1, 2, 3])"
    by (simp only: encryptBlob_123) simp
  then show ?thesis
    by (simp only: aead_correct_test valid_test_key encryptBlob_123 simp_thms)
qed

theorem decrypt_does_not_catch_witness:
  "split_limit STRING_PARTITION 3 (str ''001:030a11181f262d343b424950575e656c737a81888f969da4:WFVcXF+IiIiIiIiIiIiIiIiIiIiI'') = [str ''001'', (str ''030a11181f262d343b424950575e656c737a81888f969da4''), (str ''WFVcXF+IiIiIiIiIiIiIiIiIiIiI'')] \<and>
   \<not> str_less (str ''001'') Version \<and>
   from_base64 (str ''WFVcXF+IiIiIiIiIiIiIiIiIiIiI'') = Some [88, 85, 92, 92, 95, 136, 136, 136, 136, 136, 136, 136, 136, 136, 136, 136, 136, 136, 136, 136, 136] \<and>
   from_hex (str ''030a11181f262d343b424950575e656c737a81888f969da4'') = Some [3, 10, 17, 24, 31, 38, 45, 52, 59, 66, 73, 80, 87, 94, 101, 108, 115, 122, 129, 136, 143, 150, 157, 164] \<and>
   from_hex other_key = Some [0, 0, 0, 0, 0, 0, 0, 0, 0, 0, 0, 0, 0, 0, 0, 0, 0, 0, 0, 0, 0, 0, 0, 0, 0, 0, 0, 0, 0, 0, 0, 0] \<and>
   crypto_aead_xchacha20poly1305_ietf_decrypt test_sodium [88, 85, 92, 92, 95, 136, 136, 136, 136, 136, 136, 136, 136, 136, 136, 136, 136, 136, 136, 136, 136]
     [3, 10, 17, 24, 31, 38, 45, 52, 59, 66, 73, 80, 87, 94, 101, 108, 115, 122, 129, 136, 143, 150, 157, 164] [0, 0, 0, 0, 0, 0, 0, 0, 0, 0, 0, 0, 0, 0, 0, 0, 0, 0, 0, 0, 0, 0, 0, 0, 0, 0, 0, 0, 0, 0, 0, 0] = None \<and>
   decrypt test_sodium other_key (str ''001:030a11181f262d343b424950575e656c737a81888f969da4:WFVcXF+IiIiIiIiIiIiIiIiIiIiI'') = Inl PrimitiveError \<and>
   to_string (take 3 [48, 48, 49, 3, 10, 17, 24, 31, 38, 45, 52, 59, 66, 73, 80, 87, 94, 101, 108, 115, 122, 129, 136, 143, 150, 157, 164, 241, 242, 243, 154, 154, 154, 154, 154, 154, 154, 154, 154, 154, 154, 154, 154, 154, 154, 154]) = Some (str ''001'') \<and>
   crypto_aead_xchacha20poly1305_ietf_decrypt test_sodium
     (drop 27 [48, 48, 49, 3, 10, 17, 24, 31, 38, 45, 52, 59, 66, 73, 80, 87, 94, 101, 108, 115, 122, 129, 136, 143, 150, 157, 164, 241, 242, 243, 154, 154, 154, 154, 154, 154, 154, 154, 154, 154, 154, 154, 154, 154, 154, 154])
     (drop 3 (take 27 [48, 48, 49, 3, 10, 17, 24, 31, 38, 45, 52, 59, 66, 73, 80, 87, 94, 101, 108, 115, 122, 129, 136, 143, 150, 157, 164, 241, 242, 243, 154, 154, 154, 154, 154, 154, 154, 154, 154, 154, 154, 154, 154, 154, 154, 154]))
     [0, 0, 0, 0, 0, 0, 0, 0, 0, 0, 0, 0, 0, 0, 0, 0, 0, 0, 0, 0, 0, 0, 0, 0, 0, 0, 0, 0, 0, 0, 0, 0] = None \<and>
   decryptBlob test_sodium other_key
     [48, 48, 49, 3, 10, 17, 24, 31, 38, 45, 52, 59, 66, 73, 80, 87, 94, 101, 108, 115, 122, 129, 136, 143, 150, 157, 164, 241, 242, 243, 154, 154, 154, 154, 154, 154, 154, 154, 154, 154, 154, 154, 154, 154, 154, 154] = Inl PrimitiveError"
  using decrypt_does_not_catch
    [of "(str ''001:030a11181f262d343b424950575e656c737a81888f969da4:WFVcXF+IiIiIiIiIiIiIiIiIiIiI'')" "str ''001''" "(str ''030a11181f262d343b424950575e656c737a81888f969da4'')" "(str ''WFVcXF+IiIiIiIiIiIiIiIiIiIiI'')"
        "[88, 85, 92, 92, 95, 136, 136, 136, 136, 136, 136, 136, 136, 136, 136, 136, 136, 136, 136, 136, 136]" "[3, 10, 17, 24, 31, 38, 45, 52, 59, 66, 73, 80, 87, 94, 101, 108, 115, 122, 129, 136, 143, 150, 157, 164]" other_key "[0, 0, 0, 0, 0, 0, 0, 0, 0, 0, 0, 0, 0, 0, 0, 0, 0, 0, 0, 0, 0, 0, 0, 0, 0, 0, 0, 0, 0, 0, 0, 0]" test_sodium
        "[48, 48, 49, 3, 10, 17, 24, 31, 38, 45, 52, 59, 66, 73, 80, 87, 94, 101, 108, 115, 122, 129, 136, 143, 150, 157, 164, 241, 242, 243, 154, 154, 154, 154, 154, 154, 154, 154, 154, 154, 154, 154, 154, 154, 154, 154]" "str ''001''" other_key "[0, 0, 0, 0, 0, 0, 0, 0, 0, 0, 0, 0, 0, 0, 0, 0, 0, 0, 0, 0, 0, 0, 0, 0, 0, 0, 0, 0, 0, 0, 0, 0]"]
  by (simp add: run)

theorem version_check_witness:
  "str_less Version (str ''002'') \<and> \<not> str_less (str ''002'') Version \<and>
   (\<exists>v. decrypt test_sodium test_key (str ''000:00:AAAA'') = Inl (InvalidVersion v)) \<and>
   \<not> (\<exists>v. decrypt test_sodium test_key (str ''002:00:AAAA'') = Inl (InvalidVersion v)) \<and>
   (\<exists>v. decryptBlob test_sodium test_key [48, 48, 48, 1, 2] = Inl (InvalidVersion v)) \<and>
   \<not> (\<exists>v. decryptBlob test_sodium test_key [48, 48, 49, 1, 2] = Inl (InvalidVersion v))"
proof -
  have less: "str_less Version (str ''002'')"
    by (simp add: run)
  have old: "takeWhile (\<lambda>c. c \<noteq> STRING_PARTITION) (str ''000:00:AAAA'') = str ''000''"
    and new: "takeWhile (\<lambda>c. c \<noteq> STRING_PARTITION) (str ''002:00:AAAA'') = str ''002''"
    and blob: "to_string (take 3 [48, 48, 48, 1, 2]) = Some (str ''000'')"
      "to_string (take 3 [48, 48, 49, 1, 2]) = Some (str ''001'')"
    by (simp_all add: run)
  from version_check [of test_sodium test_key "str ''000:00:AAAA''" "[48, 48, 48, 1, 2]" "str ''002''"]
    version_check [of test_sodium test_key "str ''002:00:AAAA''" "[48, 48, 49, 1, 2]" "str ''002''"]
    less
  show ?thesis
    by (simp only: old new blob) simp
qed

text \<open>
  Claim C5 as stated, that \<open>decrypt\<close> throws a format error whenever the input does not
  split into exactly three fields, fails on an input of four fields: a valid envelope
  followed by \<^verbatim>\<open>":extra"\<close> decrypts to the plaintext.
\<close>

theorem four_fields_counterexample:
  "length (split STRING_PARTITION (str ''001:030a11181f262d343b424950575e656c737a81888f969da4:WFVcXF+IiIiIiIiIiIiIiIiIiIiI:extra'')) = 4 \<and>
   decrypt test_sodium test_key (str ''001:030a11181f262d343b424950575e656c737a81888f969da4:WFVcXF+IiIiIiIiIiIiIiIiIiIiI:extra'') = Inr (Some (str ''hello''))"
  by (simp add: run)

theorem decrypt_field_count_witness:
  "length (split STRING_PARTITION (str ''002:00'')) = 2 \<and>
   \<not> str_less (takeWhile (\<lambda>c. c \<noteq> STRING_PARTITION) (str ''002:00'')) Version \<and>
   decrypt test_sodium test_key (str ''002:00'') = Inl DecodingError \<and>
   length (split STRING_PARTITION (str ''001:030a11181f262d343b424950575e656c737a81888f969da4:WFVcXF+IiIiIiIiIiIiIiIiIiIiI:extra'')) = 4 \<and>
   join STRING_PARTITION (take 3 (split STRING_PARTITION (str ''001:030a11181f262d343b424950575e656c737a81888f969da4:WFVcXF+IiIiIiIiIiIiIiIiIiIiI:extra''))) = (str ''001:030a11181f262d343b424950575e656c737a81888f969da4:WFVcXF+IiIiIiIiIiIiIiIiIiIiI'') \<and>
   decrypt test_sodium test_key (str ''001:030a11181f262d343b424950575e656c737a81888f969da4:WFVcXF+IiIiIiIiIiIiIiIiIiIiI:extra'') = decrypt test_sodium test_key (str ''001:030a11181f262d343b424950575e656c737a81888f969da4:WFVcXF+IiIiIiIiIiIiIiIiIiIiI'')"
proof -
  have few: "length (split STRING_PARTITION (str ''002:00'')) = 2"
    and version: "\<not> str_less (takeWhile (\<lambda>c. c \<noteq> STRING_PARTITION) (str ''002:00'')) Version"
    and many: "length (split STRING_PARTITION (str ''001:030a11181f262d343b424950575e656c737a81888f969da4:WFVcXF+IiIiIiIiIiIiIiIiIiIiI:extra'')) = 4"
    and three: "join STRING_PARTITION (take 3 (split STRING_PARTITION (str ''001:030a11181f262d343b424950575e656c737a81888f969da4:WFVcXF+IiIiIiIiIiIiIiIiIiIiI:extra''))) = (str ''001:030a11181f262d343b424950575e656c737a81888f969da4:WFVcXF+IiIiIiIiIiIiIiIiIiIiI'')"
    by (simp_all add: run)
  from decrypt_field_count [of "str ''002:00''" test_sodium test_key]
    decrypt_field_count [of "(str ''001:030a11181f262d343b424950575e656c737a81888f969da4:WFVcXF+IiIiIiIiIiIiIiIiIiIiI:extra'')" test_sodium test_key]
  show ?thesis
    by (simp only: few version many three) simp
qed

theorem envelope_shape_witness:
  "encrypt test_sodium test_random test_key (str ''hello'') = Inr (str ''001:030a11181f262d343b424950575e656c737a81888f969da4:WFVcXF+IiIiIiIiIiIiIiIiIiIiI'') \<and>
   (str ''001:030a11181f262d343b424950575e656c737a81888f969da4:WFVcXF+IiIiIiIiIiIiIiIiIiIiI'') = Version @ [STRING_PARTITION] @ (str ''030a11181f262d343b424950575e656c737a81888f969da4'') @ [STRING_PARTITION] @ (str ''WFVcXF+IiIiIiIiIiIiIiIiIiIiI'') \<and>
   (str ''030a11181f262d343b424950575e656c737a81888f969da4'') = arrayBufferToHexString [3, 10, 17, 24, 31, 38, 45, 52, 59, 66, 73, 80, 87, 94, 101, 108, 115, 122, 129, 136, 143, 150, 157, 164] \<and>
   length (str ''030a11181f262d343b424950575e656c737a81888f969da4'') = 48 \<and> list_all is_hex_char (str ''030a11181f262d343b424950575e656c737a81888f969da4'') \<and>
   hexStringToArrayBuffer (Some (str ''030a11181f262d343b424950575e656c737a81888f969da4'')) = Inr [3, 10, 17, 24, 31, 38, 45, 52, 59, 66, 73, 80, 87, 94, 101, 108, 115, 122, 129, 136, 143, 150, 157, 164] \<and>
   (str ''WFVcXF+IiIiIiIiIiIiIiIiIiIiI'') = arrayBufferToBase64 [88, 85, 92, 92, 95, 136, 136, 136, 136, 136, 136, 136, 136, 136, 136, 136, 136, 136, 136, 136, 136] \<and>
   list_all is_base64_char (str ''WFVcXF+IiIiIiIiIiIiIiIiIiIiI'') \<and>
   base64ToArrayBuffer (Some (str ''WFVcXF+IiIiIiIiIiIiIiIiIiIiI'')) = Inr [88, 85, 92, 92, 95, 136, 136, 136, 136, 136, 136, 136, 136, 136, 136, 136, 136, 136, 136, 136, 136] \<and>
   separators (str ''001:030a11181f262d343b424950575e656c737a81888f969da4:WFVcXF+IiIiIiIiIiIiIiIiIiIiI'') = 2 \<and>
   split STRING_PARTITION (str ''001:030a11181f262d343b424950575e656c737a81888f969da4:WFVcXF+IiIiIiIiIiIiIiIiIiIiI'') = [Version, (str ''030a11181f262d343b424950575e656c737a81888f969da4''), (str ''WFVcXF+IiIiIiIiIiIiIiIiIiIiI'')]"
  using envelope_shape [OF encrypt_hello]
  by (simp add: run)

theorem nonce_check_always_passes_witness:
  "length (generateRandomKey test_random EncryptionNonceLength) = 48 \<and>
   encrypt test_sodium test_random (str ''zz'') (str ''hello'') = Inl DecodingError"
  using nonce_check_always_passes [of test_random test_sodium "str ''zz''" "str ''hello''"]
  by (simp add: run)

theorem decrypt_has_no_nonce_length_check_witness:
  "split_limit STRING_PARTITION 3 (str ''001:00:AAAA'') = [str ''001'', str ''00'', str ''AAAA''] \<and>
   length (str ''00'') \<noteq> 48 \<and>
   from_base64 (str ''AAAA'') = Some [0, 0, 0] \<and> from_hex (str ''00'') = Some [0] \<and>
   crypto_aead_xchacha20poly1305_ietf_decrypt test_sodium [0, 0, 0] [0] [0, 0, 0, 0, 0, 0, 0, 0, 0, 0, 0, 0, 0, 0, 0, 0, 0, 0, 0, 0, 0, 0, 0, 0, 0, 0, 0, 0, 0, 0, 0, 0] = None \<and>
   decrypt test_sodium other_key (str ''001:00:AAAA'') = Inl PrimitiveError \<and>
   to_string (take 3 [48, 48, 49, 7]) = Some (str ''001'') \<and>
   crypto_aead_xchacha20poly1305_ietf_decrypt test_sodium [] (drop 3 [48, 48, 49, 7]) [0, 0, 0, 0, 0, 0, 0, 0, 0, 0, 0, 0, 0, 0, 0, 0, 0, 0, 0, 0, 0, 0, 0, 0, 0, 0, 0, 0, 0, 0, 0, 0] = None \<and>
   decryptBlob test_sodium other_key [48, 48, 49, 7] = Inl PrimitiveError"
  using decrypt_has_no_nonce_length_check
    [of test_sodium other_key "str ''001:00:AAAA''" "[48, 48, 49, 7]" "str ''001''" "str ''00''"
        "str ''AAAA''" "[0, 0, 0]" "[0]" "[0, 0, 0, 0, 0, 0, 0, 0, 0, 0, 0, 0, 0, 0, 0, 0, 0, 0, 0, 0, 0, 0, 0, 0, 0, 0, 0, 0, 0, 0, 0, 0]" "str ''001''"]
  by (simp add: run)

text \<open>
  Claim C7. The claim is that both \<open>hash\<close> and \<open>hashPassword\<close> throw on a salt that is
  not valid hex. \<open>hashPassword\<close> does: it decodes the salt with
  \<^verbatim>\<open>hexStringToArrayBuffer\<close>. \<open>hash\<close>, whose salt is documented as a hex string too,
  encodes it with \<^verbatim>\<open>stringToArrayBuffer\<close> instead and so never fails on it: on the salt
  \<^verbatim>\<open>"zz"\<close> it returns a digest.
\<close>

theorem hash_does_not_decode_salt:
  "hash hkdf' key salt length' \<noteq> Inl DecodingError \<and>
   hexStringToArrayBuffer (Some (str ''zz'')) = Inl DecodingError \<and>
   hashPassword test_sodium (str ''p'') (str ''zz'') None None None = Inl DecodingError \<and>
   hash test_hkdf (str ''k'') (str ''zz'') None =
     Inr (str ''5f5f5f5f5f5f5f5f5f5f5f5f5f5f5f5f5f5f5f5f5f5f5f5f5f5f5f5f5f5f5f5f'')"
proof -
  have "hash hkdf' key salt length' \<noteq> Inl DecodingError"
    by (simp add: hash_def split: option.splits)
  moreover have "hexStringToArrayBuffer (Some (str ''zz'')) = Inl DecodingError"
    and "hashPassword test_sodium (str ''p'') (str ''zz'') None None None = Inl DecodingError"
    and "hash test_hkdf (str ''k'') (str ''zz'') None =
      Inr (str ''5f5f5f5f5f5f5f5f5f5f5f5f5f5f5f5f5f5f5f5f5f5f5f5f5f5f5f5f5f5f5f5f'')"
    by (simp_all add: run)
  ultimately show ?thesis by simp
qed

theorem hashPassword_deterministic_witness:
  "hexStringToArrayBuffer (Some (str ''000102030405060708090a0b0c0d0e0f'')) = Inr [0, 1, 2, 3, 4, 5, 6, 7, 8, 9, 10, 11, 12, 13, 14, 15] \<and>
   crypto_pwhash test_sodium 32 (stringToArrayBuffer (str ''p'')) [0, 1, 2, 3, 4, 5, 6, 7, 8, 9, 10, 11, 12, 13, 14, 15] 5 67108864 =
     Some [237, 237, 237, 237, 237, 237, 237, 237, 237, 237, 237, 237, 237, 237, 237, 237, 237, 237, 237, 237, 237, 237, 237, 237, 237, 237, 237, 237, 237, 237, 237, 237] \<and>
   hashPassword test_sodium (str ''p'') (str ''000102030405060708090a0b0c0d0e0f'') None None None = Inr (str ''edededededededededededededededededededededededededededededededed'') \<and>
   hashPassword test_sodium (str ''p'') (str ''000102030405060708090a0b0c0d0e0f'') (Some 5) (Some 67108864) (Some 32) = Inr (str ''edededededededededededededededededededededededededededededededed'') \<and>
   hashPassword test_sodium (str ''p'') (str ''000102030405060708090a0b0c0d0e0f'') (Some 3) (Some 1048576) (Some 32) = Inr (str ''ebebebebebebebebebebebebebebebebebebebebebebebebebebebebebebebeb'')"
  using hashPassword_deterministic [of test_sodium "str ''p''" "(str ''000102030405060708090a0b0c0d0e0f'')" None None None]
    hashPassword_deterministic
      [of test_sodium "str ''p''" "(str ''000102030405060708090a0b0c0d0e0f'')" "Some 3" "Some 1048576" "Some 32"]
  by (simp add: run)

end
